theory Spec2Isabelle
  imports Complex_Main
begin

section \<open>Python values and errors\<close>

text \<open>
  The exceptions the modelled code can raise.  \<open>External\<close> stands for an exception raised by a
  collaborator that lives outside the file (the learner, a reader, the model loader).
\<close>

datatype pyerror = TypeError | IndexError | ValueError | OverflowError | AttributeError
  | External string

text \<open>
  A Python float.  The code never does arithmetic on floats: it compares them and truncates
  them, so a finite float is represented by the real number it denotes.
\<close>

datatype pyfloat = Finite real | PosInf | NegInf | NaN

text \<open>
  What \<open>ndarray.tolist()\<close> yields for the numeric arrays a learner predicts: Python ints,
  Python floats and (nested) lists of them.
\<close>

datatype pyval = PInt int | PFloat pyfloat | PList "pyval list"

text \<open>
  One element of the list \<open>Predictor.predict\<close> returns: a value taken from the learner's
  output (or the 0/1 indicator), or a class label taken from the learner's label list.
\<close>

datatype 'l prediction = Value pyval | Label 'l

text \<open>Python's \<open>a >= b\<close> and \<open>a == b\<close> on floats (IEEE: every comparison with NaN is false).\<close>

fun float_ge :: "pyfloat \<Rightarrow> pyfloat \<Rightarrow> bool" where
  "float_ge NaN _ = False"
| "float_ge _ NaN = False"
| "float_ge PosInf _ = True"
| "float_ge _ NegInf = True"
| "float_ge (Finite a) (Finite b) = (b \<le> a)"
| "float_ge _ _ = False"

fun float_eq :: "pyfloat \<Rightarrow> pyfloat \<Rightarrow> bool" where
  "float_eq NaN _ = False"
| "float_eq _ NaN = False"
| "float_eq a b = (a = b)"

text \<open>
  \<open>xs[i]\<close> on a Python list: a negative index counts from the end, an index outside
  \<open>-len(xs) .. len(xs) - 1\<close> raises IndexError.
\<close>

definition list_getitem :: "'a list \<Rightarrow> int \<Rightarrow> pyerror + 'a" where
  "list_getitem xs i =
     (if 0 \<le> i \<and> i < int (length xs) then Inr (xs ! nat i)
      else if - int (length xs) \<le> i \<and> i < 0 then Inr (xs ! nat (int (length xs) + i))
      else Inl IndexError)"

text \<open>\<open>pred[i]\<close> on a raw prediction: ints and floats are not subscriptable.\<close>

fun py_getitem :: "pyval \<Rightarrow> int \<Rightarrow> pyerror + pyval" where
  "py_getitem (PList xs) i = list_getitem xs i"
| "py_getitem (PInt _) i = Inl TypeError"
| "py_getitem (PFloat _) i = Inl TypeError"

text \<open>
  \<open>int(v)\<close>: an int is itself, a finite float is truncated towards zero, an infinity raises
  OverflowError, NaN raises ValueError, a list raises TypeError.
\<close>

fun py_int :: "pyval \<Rightarrow> pyerror + int" where
  "py_int (PInt k) = Inr k"
| "py_int (PFloat (Finite r)) = Inr (if 0 \<le> r then \<lfloor>r\<rfloor> else \<lceil>r\<rceil>)"
| "py_int (PFloat PosInf) = Inl OverflowError"
| "py_int (PFloat NegInf) = Inl OverflowError"
| "py_int (PFloat NaN) = Inl ValueError"
| "py_int (PList _) = Inl TypeError"

text \<open>
  \<open>v >= t\<close> for a float \<open>t\<close> (Python 3): an int is compared by its exact value, a list
  against a float raises TypeError.
\<close>

fun py_ge :: "pyval \<Rightarrow> pyfloat \<Rightarrow> pyerror + bool" where
  "py_ge (PFloat x) t = Inr (float_ge x t)"
| "py_ge (PInt k) t = Inr (float_ge (Finite (of_int k)) t)"
| "py_ge (PList _) t = Inl TypeError"

text \<open>\<open>int(b)\<close> for a bool.\<close>

definition int_of_bool :: "bool \<Rightarrow> int" where
  "int_of_bool b = (if b then 1 else 0)"

text \<open>
  A list comprehension \<open>[f(x) for x in xs]\<close> whose body can raise: the elements are
  evaluated in order and the first exception ends the comprehension.
\<close>

fun list_comp :: "('a \<Rightarrow> pyerror + 'b) \<Rightarrow> 'a list \<Rightarrow> pyerror + 'b list" where
  "list_comp f [] = Inr []"
| "list_comp f (x # xs) =
     (case f x of
        Inl e \<Rightarrow> Inl e
      | Inr y \<Rightarrow> (case list_comp f xs of Inl e \<Rightarrow> Inl e | Inr ys \<Rightarrow> Inr (y # ys)))"

section \<open>The learner (external collaborator)\<close>

text \<open>
  \<open>skll.learner.Learner\<close> is not part of the file; the predictor reads four attributes of it
  and calls its \<open>predict\<close>.  \<open>model_type\<close> and \<open>feat_vectorizer\<close> are only tested with
  \<open>issubclass(_, RegressorMixin)\<close> and \<open>isinstance(_, FeatureHasher)\<close>.  A FeatureSet is
  the list of its examples; \<open>learner_predict l data feature_hasher\<close> is
  \<open>l.predict(data, feature_hasher=feature_hasher).tolist()\<close>.
\<close>

datatype sk_class = RegressorClass | ClassifierClass

datatype vectorizer = FeatureHasher | DictVectorizer

definition issubclass_RegressorMixin :: "sk_class \<Rightarrow> bool" where
  "issubclass_RegressorMixin c = (c = RegressorClass)"

definition isinstance_FeatureHasher :: "vectorizer \<Rightarrow> bool" where
  "isinstance_FeatureHasher v = (v = FeatureHasher)"

record ('x, 'l) learner =
  probability :: bool
  model_type :: sk_class
  feat_vectorizer :: vectorizer
  label_list :: "'l list"
  learner_predict :: "'x list \<Rightarrow> bool \<Rightarrow> pyerror + pyval list"

section \<open>Predictor\<close>

record ('x, 'l) Predictor =
  learner :: "('x, 'l) learner"
  pos_index :: int
  threshold :: "pyfloat option"

text \<open>The three comprehension bodies of \<open>Predictor.predict\<close>, one per branch.\<close>

definition prob_value :: "int \<Rightarrow> pyval \<Rightarrow> pyerror + 'l prediction" where
  "prob_value pos pred =
     (case py_getitem pred pos of Inl e \<Rightarrow> Inl e | Inr v \<Rightarrow> Inr (Value v))"

definition prob_indicator :: "int \<Rightarrow> pyfloat \<Rightarrow> pyval \<Rightarrow> pyerror + 'l prediction" where
  "prob_indicator pos t pred =
     (case py_getitem pred pos of
        Inl e \<Rightarrow> Inl e
      | Inr v \<Rightarrow> (case py_ge v t of
                   Inl e \<Rightarrow> Inl e
                 | Inr b \<Rightarrow> Inr (Value (PInt (int_of_bool b)))))"

text \<open>\<open>pred if isinstance(pred, int) else int(pred[0])\<close>\<close>

definition label_index :: "pyval \<Rightarrow> pyerror + int" where
  "label_index pred =
     (case pred of
        PInt k \<Rightarrow> Inr k
      | _ \<Rightarrow> (case py_getitem pred 0 of Inl e \<Rightarrow> Inl e | Inr v \<Rightarrow> py_int v))"

definition class_label :: "'l list \<Rightarrow> pyval \<Rightarrow> pyerror + 'l prediction" where
  "class_label labels pred =
     (case label_index pred of
        Inl e \<Rightarrow> Inl e
      | Inr k \<Rightarrow> (case list_getitem labels k of Inl e \<Rightarrow> Inl e | Inr l \<Rightarrow> Inr (Label l)))"

text \<open>
  \<open>Predictor.predict(self, data)\<close>.  The result is paired with the predictor after the
  call, since a method may assign to the attributes of \<open>self\<close>.
\<close>

definition predict ::
  "('x, 'l) Predictor \<Rightarrow> 'x list \<Rightarrow> (pyerror + 'l prediction list) \<times> ('x, 'l) Predictor" where
  "predict self data =
     (let use_feature_hashing = isinstance_FeatureHasher (feat_vectorizer (learner self))
      in case learner_predict (learner self) data use_feature_hashing of
           Inl e \<Rightarrow> (Inl e, self)
         | Inr preds \<Rightarrow>
             if probability (learner self) then
               (case threshold self of
                  None \<Rightarrow> (list_comp (prob_value (pos_index self)) preds, self)
                | Some t \<Rightarrow> (list_comp (prob_indicator (pos_index self) t) preds, self))
             else if issubclass_RegressorMixin (model_type (learner self)) then
               (Inr (map Value preds), self)
             else
               (list_comp (class_label (label_list (learner self))) preds, self))"

section \<open>The command-line entry point\<close>

text \<open>
  The namespace \<open>argparse\<close> returns.  \<open>input_file\<close> is declared with \<open>nargs='+'\<close>, so it
  is a list of paths; \<open>positive_class\<close> has \<open>type=int\<close>, \<open>threshold\<close> has \<open>type=float\<close>
  and no default (None when the option is absent).
\<close>

record args =
  model_file :: string
  input_file :: "string list"
  label_col :: string
  positive_class :: int
  quiet :: bool
  threshold_arg :: "pyfloat option"

text \<open>The value of an attribute of the namespace.\<close>

datatype argval = AStr string | AList "string list" | AInt int | ABool bool
  | AFloat "pyfloat option"

text \<open>
  \<open>args.name\<close>: the namespace has the six attributes the parser declares, any other name
  raises AttributeError.
\<close>

definition getattr :: "args \<Rightarrow> string \<Rightarrow> pyerror + argval" where
  "getattr a name =
     (if name = ''model_file'' then Inr (AStr (model_file a))
      else if name = ''input_file'' then Inr (AList (input_file a))
      else if name = ''label_col'' then Inr (AStr (label_col a))
      else if name = ''positive_class'' then Inr (AInt (positive_class a))
      else if name = ''quiet'' then Inr (ABool (quiet a))
      else if name = ''threshold'' then Inr (AFloat (threshold_arg a))
      else Inl AttributeError)"

text \<open>\<open>p.rfind(c)\<close>: the last position of \<open>c\<close> in \<open>p\<close>, or -1.\<close>

fun rfind_from :: "char \<Rightarrow> string \<Rightarrow> int \<Rightarrow> int \<Rightarrow> int" where
  "rfind_from c [] i found = found"
| "rfind_from c (x # xs) i found = rfind_from c xs (i + 1) (if x = c then i else found)"

definition rfind :: "char \<Rightarrow> string \<Rightarrow> int" where
  "rfind c p = rfind_from c p 0 (- 1)"

text \<open>
  \<open>os.path.splitext\<close> on a POSIX path string: the extension starts at the last dot of the
  last path component, unless that component has only leading dots before it.
\<close>

definition splitext :: "string \<Rightarrow> string \<times> string" where
  "splitext p =
     (let sepIndex = rfind (CHR ''/'') p; dotIndex = rfind (CHR ''.'') p
      in if sepIndex < dotIndex \<and>
            filter (\<lambda>ch. ch \<noteq> CHR ''.'')
              (take (nat (dotIndex - (sepIndex + 1))) (drop (nat (sepIndex + 1)) p)) \<noteq> []
         then (take (nat dotIndex) p, drop (nat dotIndex) p)
         else (p, []))"

text \<open>
  \<open>os.path.splitext(v)\<close> on an attribute value: only a path string is accepted, any other
  argument (a list of paths among them) raises TypeError (Python 3; Python 2 raises
  AttributeError at the same place).
\<close>

fun os_path_splitext :: "argval \<Rightarrow> pyerror + string \<times> string" where
  "os_path_splitext (AStr p) = Inr (splitext p)"
| "os_path_splitext _ = Inl TypeError"

text \<open>\<open>s.lower()\<close> on ASCII text.\<close>

definition lower_char :: "char \<Rightarrow> char" where
  "lower_char c =
     (let n = (of_char c :: nat) in if 65 \<le> n \<and> n \<le> 90 then char_of (n + 32) else c)"

definition lower :: "string \<Rightarrow> string" where
  "lower s = map lower_char s"

text \<open>The message of \<open>logger.error\<close> for a skipped file.\<close>

definition skip_message :: "string \<Rightarrow> string" where
  "skip_message f =
     ''Input file must be in either .arff, .csv, .jsonlines, .libsvm, .megam, .ndj, or .tsv format. Skipping file '' @ f"

text \<open>
  The collaborators of \<open>main\<close> that live outside the file: \<open>Learner.from_file\<close>, and
  \<open>EXT_TO_READER\<close>, a dictionary from the extension to a reader class.  A reader class is
  represented by what \<open>cls(path, quiet=q, label_col=c).read()\<close> returns.
\<close>

record ('x, 'l) env =
  from_file :: "string \<Rightarrow> pyerror + ('x, 'l) learner"
  EXT_TO_READER :: "string \<rightharpoonup> (argval \<Rightarrow> bool \<Rightarrow> string \<Rightarrow> pyerror + 'x list)"

text \<open>What the run has written: the lines printed and the errors logged.\<close>

record 'l io =
  stdout :: "'l prediction list"
  logged :: "string list"

text \<open>\<open>Predictor.__init__\<close>\<close>

definition Predictor_init ::
  "('x, 'l) env \<Rightarrow> string \<Rightarrow> pyfloat option \<Rightarrow> int \<Rightarrow> pyerror + ('x, 'l) Predictor" where
  "Predictor_init e model_path thr positive_cls =
     (case from_file e model_path of
        Inl err \<Rightarrow> Inl err
      | Inr l \<Rightarrow> Inr \<lparr>learner = l, pos_index = positive_cls, threshold = thr\<rparr>)"

text \<open>
  The loop of \<open>main\<close> over \<open>args.input_file\<close>; \<open>this_file\<close> is the loop variable
  \<open>input_file\<close>.  The result is the exception that ended the run, if any, and what was
  written up to then.
\<close>

fun main_loop ::
  "('x, 'l) env \<Rightarrow> args \<Rightarrow> ('x, 'l) Predictor \<Rightarrow> string list \<Rightarrow> 'l io \<Rightarrow> pyerror option \<times> 'l io" where
  "main_loop e a predictor [] out = (None, out)"
| "main_loop e a predictor (this_file # rest) out =
     (case getattr a ''input_file'' of
        Inl err \<Rightarrow> (Some err, out)
      | Inr v \<Rightarrow>
         (case os_path_splitext v of
            Inl err \<Rightarrow> (Some err, out)
          | Inr (base, ext) \<Rightarrow>
             (let input_extension = lower ext
              in case EXT_TO_READER e input_extension of
                   None \<Rightarrow>
                     main_loop e a predictor rest
                       (out\<lparr>logged := logged out @ [skip_message this_file]\<rparr>)
                 | Some reader_class \<Rightarrow>
                     (case getattr a ''infile'' of
                        Inl err \<Rightarrow> (Some err, out)
                      | Inr infile \<Rightarrow>
                         (case reader_class infile (quiet a) (label_col a) of
                            Inl err \<Rightarrow> (Some err, out)
                          | Inr feature_set \<Rightarrow>
                             (case predict predictor feature_set of
                                (Inl err, predictor') \<Rightarrow> (Some err, out)
                              | (Inr preds, predictor') \<Rightarrow>
                                  main_loop e a predictor' rest
                                    (out\<lparr>stdout := stdout out @ preds\<rparr>)))))))"

text \<open>\<open>main\<close>, from the parsed arguments on.\<close>

definition main :: "('x, 'l) env \<Rightarrow> args \<Rightarrow> pyerror option \<times> 'l io" where
  "main e a =
     (case Predictor_init e (model_file a) (threshold_arg a) (positive_class a) of
        Inl err \<Rightarrow> (Some err, \<lparr>stdout = [], logged = []\<rparr>)
      | Inr predictor \<Rightarrow> main_loop e a predictor (input_file a) \<lparr>stdout = [], logged = []\<rparr>)"


section \<open>Auxiliary definitions and concrete instances\<close>

text \<open>
  The comprehension body \<open>Predictor.predict\<close> applies to one raw output, as selected by the
  learner's flags and the threshold (the regression branch returns the list as it is).
\<close>

definition per_example :: "('x, 'l) Predictor \<Rightarrow> pyval \<Rightarrow> pyerror + 'l prediction" where
  "per_example self pred =
     (if probability (learner self) then
        (case threshold self of
           None \<Rightarrow> prob_value (pos_index self) pred
         | Some t \<Rightarrow> prob_indicator (pos_index self) t pred)
      else if issubclass_RegressorMixin (model_type (learner self)) then Inr (Value pred)
      else class_label (label_list (learner self)) pred)"

text \<open>
  A probability classifier over the labels neg and pos whose examples are the positive-class
  probabilities themselves, a regressor, and a plain classifier that predicts both a bare
  index and a one-element list; the predictors, readers and arguments built from them.
\<close>

definition proba_learner :: "(real, string) learner" where
  "proba_learner =
     \<lparr>probability = True, model_type = ClassifierClass, feat_vectorizer = DictVectorizer,
      label_list = [''neg'', ''pos''],
      learner_predict = (\<lambda>data feature_hasher.
         Inr (map (\<lambda>x. PList [PFloat (Finite (1 - x)), PFloat (Finite x)]) data))\<rparr>"

definition regression_learner :: "(real, string) learner" where
  "regression_learner =
     \<lparr>probability = False, model_type = RegressorClass, feat_vectorizer = FeatureHasher,
      label_list = [],
      learner_predict = (\<lambda>data feature_hasher. Inr (map (\<lambda>x. PFloat (Finite (2 * x))) data))\<rparr>"

definition classifier_learner :: "(real, string) learner" where
  "classifier_learner =
     \<lparr>probability = False, model_type = ClassifierClass, feat_vectorizer = DictVectorizer,
      label_list = [''neg'', ''pos''],
      learner_predict = (\<lambda>data feature_hasher.
         Inr (map (\<lambda>x. if x < 1 / 2 then PInt 0 else PList [PInt 1]) data))\<rparr>"

definition scenario_predictor :: "(real, string) Predictor" where
  "scenario_predictor =
     \<lparr>learner = proba_learner, pos_index = 1, threshold = Some (Finite (1 / 2))\<rparr>"

definition scenario_data :: "real list" where
  "scenario_data = [2 / 10, 1 / 2, 9 / 10]"

definition raw_predictor :: "(real, string) Predictor" where
  "raw_predictor = \<lparr>learner = proba_learner, pos_index = 1, threshold = None\<rparr>"

definition last_class_predictor :: "(real, string) Predictor" where
  "last_class_predictor = \<lparr>learner = proba_learner, pos_index = - 1, threshold = None\<rparr>"

definition regression_predictor :: "(real, string) Predictor" where
  "regression_predictor = \<lparr>learner = regression_learner, pos_index = 1, threshold = None\<rparr>"

definition classifier_predictor :: "(real, string) Predictor" where
  "classifier_predictor = \<lparr>learner = classifier_learner, pos_index = 1, threshold = None\<rparr>"

definition scenario_reader :: "argval \<Rightarrow> bool \<Rightarrow> string \<Rightarrow> pyerror + real list" where
  "scenario_reader path q label = Inr scenario_data"

definition scenario_env :: "(real, string) env" where
  "scenario_env =
     \<lparr>from_file = (\<lambda>path. Inr proba_learner),
      EXT_TO_READER = map_of
        [(''.arff'', scenario_reader), (''.csv'', scenario_reader),
         (''.jsonlines'', scenario_reader), (''.libsvm'', scenario_reader),
         (''.megam'', scenario_reader), (''.ndj'', scenario_reader),
         (''.tsv'', scenario_reader)]\<rparr>"

definition scenario_args :: "string list \<Rightarrow> args" where
  "scenario_args files =
     \<lparr>model_file = ''model'', input_file = files, label_col = ''y'', positive_class = 1,
      quiet = False, threshold_arg = Some (Finite (1 / 2))\<rparr>"


section \<open>List comprehensions\<close>

lemma list_comp_Inr_iff:
  "list_comp f xs = Inr ys \<longleftrightarrow> list_all2 (\<lambda>x y. f x = Inr y) xs ys"
proof (induction xs arbitrary: ys)
  case Nil
  show ?case by auto
next
  case (Cons x xs)
  show ?case
  proof (cases "f x")
    case (Inl e)
    then show ?thesis by (auto simp: list_all2_Cons1)
  next
    case (Inr y)
    then show ?thesis using Cons.IH
      by (cases "list_comp f xs") (auto simp: list_all2_Cons1)
  qed
qed

lemma list_comp_Inl:
  "list_comp f xs = Inl e \<Longrightarrow> \<exists>x\<in>set xs. f x = Inl e"
  by (induction xs) (auto split: sum.splits)

lemma list_comp_total:
  "(\<forall>x\<in>set xs. \<exists>y. f x = Inr y) \<Longrightarrow> \<exists>ys. list_comp f xs = Inr ys"
  by (induction xs) (auto split: sum.splits)

lemma list_comp_Inr_map: "list_comp (\<lambda>x. Inr (g x)) xs = Inr (map g xs)"
  by (induction xs) auto

section \<open>Predictor.predict\<close>

lemma predict_self: "snd (predict self data) = self"
  by (simp add: predict_def Let_def split: sum.splits option.splits)

lemma per_example_fun:
  "per_example self =
     (if probability (learner self) then
        (case threshold self of
           None \<Rightarrow> prob_value (pos_index self)
         | Some t \<Rightarrow> prob_indicator (pos_index self) t)
      else if issubclass_RegressorMixin (model_type (learner self)) then (\<lambda>pred. Inr (Value pred))
      else class_label (label_list (learner self)))"
  by (rule ext) (simp add: per_example_def split: option.splits)

lemma predict_result:
  "learner_predict (learner self) data (isinstance_FeatureHasher (feat_vectorizer (learner self))) = Inr raws \<Longrightarrow>
   fst (predict self data) = list_comp (per_example self) raws"
  by (simp add: predict_def per_example_fun list_comp_Inr_map split: option.splits)


text \<open>
  C1.  When the learner accepts a FeatureSet of N examples and answers with N raw outputs,
  every result \<open>predict\<close> returns has exactly N elements and its element at position i is
  the comprehension body applied to the raw output of example i; and \<open>predict\<close> does return
  whenever that body evaluates on every raw output.
\<close>

theorem predict_length_order:
  assumes "learner_predict (learner self) data
             (isinstance_FeatureHasher (feat_vectorizer (learner self))) = Inr raws"
      and "length raws = length data"
  shows "(\<forall>out. fst (predict self data) = Inr out \<longrightarrow>
            length out = length data \<and>
            (\<forall>i<length data. per_example self (raws ! i) = Inr (out ! i))) \<and>
         ((\<forall>i<length data. \<exists>v. per_example self (raws ! i) = Inr v) \<longrightarrow>
            (\<exists>out. fst (predict self data) = Inr out))"
proof -
  have res: "fst (predict self data) = list_comp (per_example self) raws"
    using assms(1) by (rule predict_result)
  have part1: "length out = length data \<and>
               (\<forall>i<length data. per_example self (raws ! i) = Inr (out ! i))"
    if "fst (predict self data) = Inr out" for out
  proof -
    from that res have "list_all2 (\<lambda>x y. per_example self x = Inr y) raws out"
      by (simp add: list_comp_Inr_iff)
    then show ?thesis using assms(2) by (simp add: list_all2_conv_all_nth)
  qed
  have part2: "\<exists>out. fst (predict self data) = Inr out"
    if "\<forall>i<length data. \<exists>v. per_example self (raws ! i) = Inr v"
  proof -
    from that assms(2) have "\<forall>x\<in>set raws. \<exists>y. per_example self x = Inr y"
      by (auto simp: in_set_conv_nth)
    then show ?thesis unfolding res by (rule list_comp_total)
  qed
  from part1 part2 show ?thesis by blast
qed

theorem predict_length_order_witness:
  "learner_predict (learner scenario_predictor) scenario_data
     (isinstance_FeatureHasher (feat_vectorizer (learner scenario_predictor)))
     = Inr [PList [PFloat (Finite (8 / 10)), PFloat (Finite (2 / 10))],
            PList [PFloat (Finite (1 / 2)), PFloat (Finite (1 / 2))],
            PList [PFloat (Finite (1 / 10)), PFloat (Finite (9 / 10))]] \<and>
   fst (predict scenario_predictor scenario_data)
     = Inr [Value (PInt 0), Value (PInt 1), Value (PInt 1)] \<and>
   length [Value (PInt 0), Value (PInt 1), Value (PInt (1::int)) :: string prediction]
     = length scenario_data"
  using predict_length_order [of scenario_predictor scenario_data
     "[PList [PFloat (Finite (8 / 10)), PFloat (Finite (2 / 10))],
       PList [PFloat (Finite (1 / 2)), PFloat (Finite (1 / 2))],
       PList [PFloat (Finite (1 / 10)), PFloat (Finite (9 / 10))]]"]
  by (simp add: scenario_predictor_def scenario_data_def proba_learner_def predict_def
      prob_indicator_def list_getitem_def int_of_bool_def isinstance_FeatureHasher_def)


lemma list_comp_mapped:
  "list_all2 (\<lambda>x y. f x = Inr (g y)) xs ys \<Longrightarrow> list_comp f xs = Inr (map g ys)"
  by (simp add: list_comp_Inr_iff list_all2_map2)

text \<open>
  C4.  For a learner that produces no probabilities and whose model type is a regressor,
  \<open>predict\<close> returns the learner's raw predictions unchanged, one per example.
\<close>

theorem predict_regression_raw:
  assumes "\<not> probability (learner self)"
      and "issubclass_RegressorMixin (model_type (learner self))"
      and "learner_predict (learner self) data
             (isinstance_FeatureHasher (feat_vectorizer (learner self))) = Inr raws"
      and "length raws = length data"
  shows "fst (predict self data) = Inr (map Value raws) \<and>
         (\<exists>out. fst (predict self data) = Inr out \<and> length out = length data \<and>
                (\<forall>i<length data. out ! i = Value (raws ! i)))"
  using assms by (simp add: predict_def)

theorem predict_regression_raw_witness:
  "\<not> probability (learner regression_predictor) \<and>
   issubclass_RegressorMixin (model_type (learner regression_predictor)) \<and>
   learner_predict (learner regression_predictor) [1, 5 / 2]
     (isinstance_FeatureHasher (feat_vectorizer (learner regression_predictor)))
     = Inr [PFloat (Finite 2), PFloat (Finite 5)] \<and>
   fst (predict regression_predictor [1, 5 / 2])
     = Inr [Value (PFloat (Finite 2)), Value (PFloat (Finite 5)) :: string prediction]"
  using predict_regression_raw [of regression_predictor "[1, 5 / 2]"
          "[PFloat (Finite 2), PFloat (Finite 5)]"]
  by (simp add: regression_predictor_def regression_learner_def
      issubclass_RegressorMixin_def)

text \<open>
  C8.  The constructor stores the loaded learner, the threshold and the positive-class index;
  \<open>predict\<close> leaves the predictor, and so each of the three fields, as it was, and a second
  call on the same FeatureSet returns the same result.
\<close>

theorem predict_keeps_configuration:
  "(Predictor_init e path thr pos = Inr self \<longrightarrow>
      from_file e path = Inr (learner self) \<and> pos_index self = pos \<and> threshold self = thr) \<and>
   snd (predict self data) = self \<and>
   learner (snd (predict self data)) = learner self \<and>
   pos_index (snd (predict self data)) = pos_index self \<and>
   threshold (snd (predict self data)) = threshold self \<and>
   fst (predict (snd (predict self data)) data) = fst (predict self data)"
  by (auto simp: predict_self Predictor_init_def split: sum.splits)

theorem predict_keeps_configuration_witness:
  "Predictor_init scenario_env ''model'' (Some (Finite (1 / 2))) 1 = Inr scenario_predictor \<and>
   from_file scenario_env ''model'' = Inr (learner scenario_predictor) \<and>
   pos_index scenario_predictor = 1 \<and>
   threshold scenario_predictor = Some (Finite (1 / 2)) \<and>
   snd (predict scenario_predictor scenario_data) = scenario_predictor \<and>
   fst (predict (snd (predict scenario_predictor scenario_data)) scenario_data)
     = fst (predict scenario_predictor scenario_data)"
  using predict_keeps_configuration [of scenario_env "''model''" "Some (Finite (1 / 2))" 1
          scenario_predictor scenario_data]
  by (simp add: Predictor_init_def scenario_env_def scenario_predictor_def)


lemma list_getitem_in_range:
  "0 \<le> i \<Longrightarrow> i < int (length xs) \<Longrightarrow> list_getitem xs i = Inr (xs ! nat i)"
  by (simp add: list_getitem_def)

lemma list_getitem_defined:
  "(\<exists>v. list_getitem xs i = Inr v) \<longleftrightarrow> - int (length xs) \<le> i \<and> i < int (length xs)"
  by (auto simp: list_getitem_def)

text \<open>
  C3.  In probability mode without a threshold, \<open>predict\<close> returns for each example the
  value \<open>pred[pos_index]\<close> of its raw output, unmodified; for a row that has the
  positive-class index in range this is the row's element at that index.
\<close>

theorem predict_probability_raw:
  assumes "probability (learner self)"
      and "threshold self = None"
      and "learner_predict (learner self) data
             (isinstance_FeatureHasher (feat_vectorizer (learner self))) = Inr raws"
      and "list_all2 (\<lambda>raw v. py_getitem raw (pos_index self) = Inr v) raws vs"
  shows "fst (predict self data) = Inr (map Value vs) \<and>
         (\<forall>i<length raws. \<forall>row.
            raws ! i = PList row \<and> 0 \<le> pos_index self \<and> pos_index self < int (length row)
            \<longrightarrow> vs ! i = row ! nat (pos_index self))"
proof
  have "list_all2 (\<lambda>raw v. prob_value (pos_index self) raw = Inr (Value v :: 'b prediction)) raws vs"
    using assms(4) by (rule list_all2_mono) (simp add: prob_value_def)
  then have "list_comp (prob_value (pos_index self)) raws = Inr (map Value vs :: 'b prediction list)"
    by (rule list_comp_mapped)
  then show "fst (predict self data) = Inr (map Value vs)"
    using assms(1-3) by (simp add: predict_def)
next
  show "\<forall>i<length raws. \<forall>row.
          raws ! i = PList row \<and> 0 \<le> pos_index self \<and> pos_index self < int (length row)
          \<longrightarrow> vs ! i = row ! nat (pos_index self)"
  proof (intro allI impI)
    fix i row
    assume i: "i < length raws"
       and row: "raws ! i = PList row \<and> 0 \<le> pos_index self \<and> pos_index self < int (length row)"
    from assms(4) i have "py_getitem (raws ! i) (pos_index self) = Inr (vs ! i)"
      by (simp add: list_all2_conv_all_nth)
    with row show "vs ! i = row ! nat (pos_index self)"
      by (simp add: list_getitem_in_range)
  qed
qed

theorem predict_probability_raw_witness:
  "probability (learner raw_predictor) \<and> threshold raw_predictor = None \<and>
   learner_predict (learner raw_predictor) scenario_data
     (isinstance_FeatureHasher (feat_vectorizer (learner raw_predictor)))
     = Inr [PList [PFloat (Finite (8 / 10)), PFloat (Finite (2 / 10))],
            PList [PFloat (Finite (1 / 2)), PFloat (Finite (1 / 2))],
            PList [PFloat (Finite (1 / 10)), PFloat (Finite (9 / 10))]] \<and>
   fst (predict raw_predictor scenario_data)
     = Inr [Value (PFloat (Finite (2 / 10))), Value (PFloat (Finite (1 / 2))),
            Value (PFloat (Finite (9 / 10))) :: string prediction]"
  using predict_probability_raw [of raw_predictor scenario_data
          "[PList [PFloat (Finite (8 / 10)), PFloat (Finite (2 / 10))],
            PList [PFloat (Finite (1 / 2)), PFloat (Finite (1 / 2))],
            PList [PFloat (Finite (1 / 10)), PFloat (Finite (9 / 10))]]"
          "[PFloat (Finite (2 / 10)), PFloat (Finite (1 / 2)), PFloat (Finite (9 / 10))]"]
  by (simp add: raw_predictor_def proba_learner_def scenario_data_def list_getitem_def)

lemma float_eq_ge: "float_eq x t \<Longrightarrow> float_ge x t"
  by (cases x; cases t) auto

text \<open>
  C2.  In probability mode with threshold t, \<open>predict\<close> returns for each example the int 1
  when the probability at the positive-class index is greater than or equal to t and the int
  0 otherwise; a probability equal to t gives 1.
\<close>

theorem predict_threshold_indicator:
  assumes "probability (learner self)"
      and "threshold self = Some t"
      and "learner_predict (learner self) data
             (isinstance_FeatureHasher (feat_vectorizer (learner self))) = Inr raws"
      and "list_all2 (\<lambda>raw x. py_getitem raw (pos_index self) = Inr (PFloat x)) raws probs"
  shows "\<exists>out. fst (predict self data) = Inr out \<and> length out = length raws \<and>
           (\<forall>i<length raws.
              out ! i = Value (PInt (if float_ge (probs ! i) t then 1 else 0)) \<and>
              (float_eq (probs ! i) t \<longrightarrow> out ! i = Value (PInt 1)) \<and>
              (\<forall>a b. probs ! i = Finite a \<and> t = Finite b \<longrightarrow>
                      out ! i = Value (PInt (if b \<le> a then 1 else 0))))"
proof -
  let ?ind = "\<lambda>x. Value (PInt (if float_ge x t then 1 else 0)) :: 'b prediction"
  have len: "length probs = length raws"
    using assms(4) by (simp add: list_all2_lengthD)
  have "list_all2 (\<lambda>raw x. prob_indicator (pos_index self) t raw = Inr (?ind x)) raws probs"
    using assms(4) by (rule list_all2_mono) (simp add: prob_indicator_def int_of_bool_def)
  then have "list_comp (prob_indicator (pos_index self) t) raws = Inr (map ?ind probs)"
    by (rule list_comp_mapped)
  then have res: "fst (predict self data) = Inr (map ?ind probs)"
    using assms(1-3) by (simp add: predict_def)
  have "\<forall>i<length raws.
          map ?ind probs ! i = ?ind (probs ! i) \<and>
          (float_eq (probs ! i) t \<longrightarrow> map ?ind probs ! i = Value (PInt 1)) \<and>
          (\<forall>a b. probs ! i = Finite a \<and> t = Finite b \<longrightarrow>
                  map ?ind probs ! i = Value (PInt (if b \<le> a then 1 else 0)))"
    using len by (auto dest: float_eq_ge)
  with res len show ?thesis by simp
qed

theorem predict_threshold_indicator_witness:
  "probability (learner scenario_predictor) \<and>
   threshold scenario_predictor = Some (Finite (1 / 2)) \<and>
   learner_predict (learner scenario_predictor) scenario_data
     (isinstance_FeatureHasher (feat_vectorizer (learner scenario_predictor)))
     = Inr [PList [PFloat (Finite (8 / 10)), PFloat (Finite (2 / 10))],
            PList [PFloat (Finite (1 / 2)), PFloat (Finite (1 / 2))],
            PList [PFloat (Finite (1 / 10)), PFloat (Finite (9 / 10))]] \<and>
   float_eq (Finite (1 / 2)) (Finite (1 / 2)) \<and>
   fst (predict scenario_predictor scenario_data)
     = Inr [Value (PInt 0), Value (PInt 1), Value (PInt 1) :: string prediction]"
  using predict_threshold_indicator [of scenario_predictor "Finite (1 / 2)" scenario_data
          "[PList [PFloat (Finite (8 / 10)), PFloat (Finite (2 / 10))],
            PList [PFloat (Finite (1 / 2)), PFloat (Finite (1 / 2))],
            PList [PFloat (Finite (1 / 10)), PFloat (Finite (9 / 10))]]"
          "[Finite (2 / 10), Finite (1 / 2), Finite (9 / 10)]"]
  by (simp add: scenario_predictor_def proba_learner_def scenario_data_def list_getitem_def
      predict_def prob_indicator_def int_of_bool_def)


lemma label_index_bare: "label_index (PInt k) = Inr k"
  by (simp add: label_index_def)

lemma label_index_container: "label_index (PList [PInt k]) = Inr k"
  by (simp add: label_index_def list_getitem_def)

text \<open>
  C5.  For a plain classifier, \<open>predict\<close> returns \<open>label_list[k]\<close> for each example whose
  raw prediction is the index k, bare or wrapped in a one-element list; both forms
  normalise to the same index and the same label.
\<close>

theorem predict_classification_label:
  assumes "\<not> probability (learner self)"
      and "\<not> issubclass_RegressorMixin (model_type (learner self))"
      and "learner_predict (learner self) data
             (isinstance_FeatureHasher (feat_vectorizer (learner self))) = Inr raws"
      and "list_all2 (\<lambda>raw k. (raw = PInt k \<or> raw = PList [PInt k]) \<and>
                              0 \<le> k \<and> k < int (length (label_list (learner self)))) raws ks"
  shows "fst (predict self data) = Inr (map (\<lambda>k. Label (label_list (learner self) ! nat k)) ks) \<and>
         (\<forall>k. class_label (label_list (learner self)) (PInt k)
               = class_label (label_list (learner self)) (PList [PInt k]) \<and>
              label_index (PInt k) = Inr k \<and> label_index (PList [PInt k]) = Inr k)"
proof
  let ?labels = "label_list (learner self)"
  have "list_all2 (\<lambda>raw k. class_label ?labels raw = Inr (Label (?labels ! nat k))) raws ks"
    using assms(4)
    by (rule list_all2_mono)
       (auto simp: class_label_def label_index_bare label_index_container list_getitem_in_range)
  then have "list_comp (class_label ?labels) raws = Inr (map (\<lambda>k. Label (?labels ! nat k)) ks)"
    by (rule list_comp_mapped)
  then show "fst (predict self data) = Inr (map (\<lambda>k. Label (?labels ! nat k)) ks)"
    using assms(1-3) by (simp add: predict_def)
next
  show "\<forall>k. class_label (label_list (learner self)) (PInt k)
               = class_label (label_list (learner self)) (PList [PInt k]) \<and>
            label_index (PInt k) = Inr k \<and> label_index (PList [PInt k]) = Inr k"
    by (simp add: class_label_def label_index_bare label_index_container)
qed

theorem predict_classification_label_witness:
  "\<not> probability (learner classifier_predictor) \<and>
   \<not> issubclass_RegressorMixin (model_type (learner classifier_predictor)) \<and>
   learner_predict (learner classifier_predictor) [9 / 10, 1 / 10, 3 / 4]
     (isinstance_FeatureHasher (feat_vectorizer (learner classifier_predictor)))
     = Inr [PList [PInt 1], PInt 0, PList [PInt 1]] \<and>
   fst (predict classifier_predictor [9 / 10, 1 / 10, 3 / 4])
     = Inr [Label ''pos'', Label ''neg'', Label ''pos'']"
  using predict_classification_label [of classifier_predictor "[9 / 10, 1 / 10, 3 / 4]"
          "[PList [PInt 1], PInt 0, PList [PInt 1]]" "[1, 0, 1]"]
  by (simp add: classifier_predictor_def classifier_learner_def issubclass_RegressorMixin_def)


lemma prob_value_row:
  "(\<exists>v. (prob_value pos (PList row) :: pyerror + 'l prediction) = Inr v)
     \<longleftrightarrow> - int (length row) \<le> pos \<and> pos < int (length row)"
  by (auto simp: prob_value_def list_getitem_def)

lemma prob_value_row_error:
  "- int (length row) \<le> pos \<Longrightarrow> pos < int (length row) \<Longrightarrow>
   (prob_value pos (PList row) :: pyerror + 'l prediction) \<noteq> Inl IndexError"
  by (auto simp: prob_value_def list_getitem_def)

lemma prob_indicator_row:
  "(prob_indicator pos t (PList row) :: pyerror + 'l prediction) = Inr v \<Longrightarrow>
   - int (length row) \<le> pos \<and> pos < int (length row)"
  by (auto simp: prob_indicator_def list_getitem_def split: if_splits)

lemma prob_indicator_row_error:
  "- int (length row) \<le> pos \<Longrightarrow> pos < int (length row) \<Longrightarrow>
   (prob_indicator pos t (PList row) :: pyerror + 'l prediction) \<noteq> Inl IndexError"
proof -
  assume "- int (length row) \<le> pos" and "pos < int (length row)"
  then obtain v where v: "list_getitem row pos = Inr v"
    using list_getitem_defined [of row pos] by blast
  show ?thesis
    by (cases v) (simp_all add: prob_indicator_def v)
qed

lemma list_comp_Inr_all:
  "list_comp f xs = Inr ys \<Longrightarrow> \<forall>x\<in>set xs. \<exists>y. f x = Inr y"
  by (induction xs arbitrary: ys) (auto split: sum.splits)

text \<open>
  C10, as amended.  In probability mode the lookup \<open>pred[pos_index]\<close> is unguarded, and
  Python accepts an index from \<open>-len(pred)\<close> to \<open>len(pred) - 1\<close>.  When every row has
  the positive-class index in that range, and so in particular when
  \<open>0 \<le> pos_index < len(pred)\<close> for every row, \<open>predict\<close> raises no IndexError, with or
  without a threshold; \<open>predict\<close> returns a result only if every row has the index in that
  range, and without a threshold it returns a result exactly then.
\<close>

theorem predict_probability_index_domain:
  assumes "probability (learner self)"
      and "learner_predict (learner self) data
             (isinstance_FeatureHasher (feat_vectorizer (learner self))) = Inr (map PList rows)"
  shows "((\<forall>row\<in>set rows. - int (length row) \<le> pos_index self \<and> pos_index self < int (length row))
            \<longrightarrow> fst (predict self data) \<noteq> Inl IndexError) \<and>
         ((\<forall>row\<in>set rows. 0 \<le> pos_index self \<and> pos_index self < int (length row))
            \<longrightarrow> fst (predict self data) \<noteq> Inl IndexError) \<and>
         ((\<exists>out. fst (predict self data) = Inr out)
            \<longrightarrow> (\<forall>row\<in>set rows. - int (length row) \<le> pos_index self \<and>
                                 pos_index self < int (length row))) \<and>
         (threshold self = None \<longrightarrow>
            (\<exists>out. fst (predict self data) = Inr out)
              = (\<forall>row\<in>set rows. - int (length row) \<le> pos_index self \<and>
                                 pos_index self < int (length row)))"
proof -
  let ?pos = "pos_index self"
  let ?ok = "\<forall>row\<in>set rows. - int (length row) \<le> ?pos \<and> ?pos < int (length row)"
  have res: "fst (predict self data) = list_comp (per_example self) (map PList rows)"
    using assms(2) by (rule predict_result)
  have no_index_error: "fst (predict self data) \<noteq> Inl IndexError" if ok: ?ok
  proof
    assume "fst (predict self data) = Inl IndexError"
    with res obtain raw where raw: "raw \<in> set (map PList rows)"
        and err: "per_example self raw = Inl IndexError"
      using list_comp_Inl [of "per_example self" "map PList rows" IndexError] by auto
    from raw obtain row where row: "row \<in> set rows" "raw = PList row" by auto
    with ok have rng: "- int (length row) \<le> ?pos" "?pos < int (length row)" by auto
    show False
    proof (cases "threshold self")
      case None
      have "(prob_value ?pos (PList row) :: pyerror + 'b prediction) \<noteq> Inl IndexError"
        using rng by (rule prob_value_row_error)
      with None err row assms(1) show False
        by (simp add: per_example_def)
    next
      case (Some t)
      have "(prob_indicator ?pos t (PList row) :: pyerror + 'b prediction) \<noteq> Inl IndexError"
        using rng by (rule prob_indicator_row_error)
      with Some err row assms(1) show False
        by (simp add: per_example_def)
    qed
  qed
  have returns_ok: ?ok if "fst (predict self data) = Inr out" for out
  proof
    fix row assume row: "row \<in> set rows"
    from that res have "\<forall>x\<in>set (map PList rows). \<exists>y. per_example self x = Inr y"
      by (simp add: list_comp_Inr_all)
    with row obtain y where y: "per_example self (PList row) = Inr y" by auto
    show "- int (length row) \<le> ?pos \<and> ?pos < int (length row)"
    proof (cases "threshold self")
      case None
      with y assms(1) have "prob_value ?pos (PList row) = Inr y"
        by (simp add: per_example_def)
      then show ?thesis using prob_value_row [of ?pos row] by blast
    next
      case (Some t)
      with y assms(1) have "prob_indicator ?pos t (PList row) = Inr y"
        by (simp add: per_example_def)
      then show ?thesis by (rule prob_indicator_row)
    qed
  qed
  have ok_returns: "\<exists>out. fst (predict self data) = Inr out"
    if ok: ?ok and none: "threshold self = None"
  proof -
    have "\<forall>x\<in>set (map PList rows). \<exists>y. per_example self x = Inr y"
    proof
      fix x assume "x \<in> set (map PList rows)"
      then obtain row where row: "row \<in> set rows" "x = PList row" by auto
      with ok have "- int (length row) \<le> ?pos \<and> ?pos < int (length row)" by auto
      then obtain y :: "'b prediction" where "prob_value ?pos (PList row) = Inr y"
        using prob_value_row [of ?pos row] by blast
      with row none assms(1) show "\<exists>y. per_example self x = Inr y"
        by (simp add: per_example_def)
    qed
    then show ?thesis unfolding res by (rule list_comp_total)
  qed
  have nonneg: ?ok if "\<forall>row\<in>set rows. 0 \<le> ?pos \<and> ?pos < int (length row)"
    using that by fastforce
  from no_index_error returns_ok ok_returns nonneg show ?thesis by blast
qed

theorem predict_probability_index_domain_witness:
  "probability (learner last_class_predictor) \<and>
   learner_predict (learner last_class_predictor) [7 / 10]
     (isinstance_FeatureHasher (feat_vectorizer (learner last_class_predictor)))
     = Inr (map PList [[PFloat (Finite (3 / 10)), PFloat (Finite (7 / 10))]]) \<and>
   - int (length [PFloat (Finite (3 / 10)), PFloat (Finite (7 / 10))])
       \<le> pos_index last_class_predictor \<and>
   pos_index last_class_predictor < int (length [PFloat (Finite (3 / 10)), PFloat (Finite (7 / 10))]) \<and>
   fst (predict last_class_predictor [7 / 10]) \<noteq> Inl IndexError"
  using predict_probability_index_domain [of last_class_predictor "[7 / 10]"
          "[[PFloat (Finite (3 / 10)), PFloat (Finite (7 / 10))]]"]
  by (simp add: last_class_predictor_def proba_learner_def)

text \<open>
  C10, as stated, asks for \<open>0 \<le> pos_index\<close>.  With the positive-class index -1 and the
  row \<open>[0.3, 0.7]\<close> the precondition fails and \<open>predict\<close> returns the last probability.
\<close>

theorem negative_index_counterexample:
  "probability (learner last_class_predictor) \<and>
   learner_predict (learner last_class_predictor) [7 / 10]
     (isinstance_FeatureHasher (feat_vectorizer (learner last_class_predictor)))
     = Inr [PList [PFloat (Finite (3 / 10)), PFloat (Finite (7 / 10))]] \<and>
   fst (predict last_class_predictor [7 / 10]) = Inr [Value (PFloat (Finite (7 / 10)))] \<and>
   \<not> (0 \<le> pos_index last_class_predictor \<and>
      pos_index last_class_predictor < int (length [PFloat (Finite (3 / 10)), PFloat (Finite (7 / 10))]))"
  by (simp add: last_class_predictor_def proba_learner_def predict_def prob_value_def
      list_getitem_def)


section \<open>The command-line entry point\<close>

text \<open>
  The first iteration of the loop passes \<open>args.input_file\<close>, the whole list, to
  \<open>os.path.splitext\<close>: the run ends there, whatever the files are.
\<close>

lemma main_loop_first_file:
  "main_loop e a predictor (this_file # rest) out = (Some TypeError, out)"
  by (simp add: getattr_def)

lemma scenario_main:
  "main scenario_env (scenario_args (f # fs)) = (Some TypeError, \<lparr>stdout = [], logged = []\<rparr>)"
proof -
  have files: "input_file (scenario_args (f # fs)) = f # fs"
    by (simp add: scenario_args_def)
  show ?thesis
    by (simp add: main_def files main_loop_first_file Predictor_init_def scenario_env_def
        del: main_loop.simps)
qed

lemma scenario_lookup:
  "EXT_TO_READER scenario_env ''.csv'' = Some scenario_reader"
  "EXT_TO_READER scenario_env ''.xyz'' = None"
  by (simp_all add: scenario_env_def)

lemma scenario_extensions:
  "lower (snd (splitext ''a.csv'')) = ''.csv''"
  "lower (snd (splitext ''b.xyz'')) = ''.xyz''"
  "lower (snd (splitext ''a.CSV'')) = ''.csv''"
  by code_simp+

lemma scenario_prediction:
  "fst (predict scenario_predictor scenario_data)
     = Inr [Value (PInt 0), Value (PInt 1), Value (PInt 1)]"
  by (simp add: scenario_predictor_def scenario_data_def proba_learner_def predict_def
      prob_indicator_def list_getitem_def int_of_bool_def)

text \<open>
  C6.  With one file of a recognized suffix and one of an unrecognized suffix, in either
  order, the run ends with TypeError before anything is printed or logged: no error is
  logged for the unrecognized file and no prediction is printed for the recognized one.
\<close>

theorem main_mixed_suffixes_raises:
  "EXT_TO_READER scenario_env (lower (snd (splitext ''a.csv''))) = Some scenario_reader \<and>
   EXT_TO_READER scenario_env (lower (snd (splitext ''b.xyz''))) = None \<and>
   main scenario_env (scenario_args [''a.csv'', ''b.xyz''])
     = (Some TypeError, \<lparr>stdout = [], logged = []\<rparr>) \<and>
   main scenario_env (scenario_args [''b.xyz'', ''a.csv''])
     = (Some TypeError, \<lparr>stdout = [], logged = []\<rparr>)"
  by (simp add: scenario_main scenario_extensions scenario_lookup)

text \<open>
  C7.  For a single file with the recognized suffix \<open>.csv\<close>, whose reader and predictions
  exist, the run ends with TypeError and prints nothing; the path the reader would be given,
  \<open>args.infile\<close>, is not an attribute of the namespace either.
\<close>

theorem main_recognized_file_raises:
  "EXT_TO_READER scenario_env (lower (snd (splitext ''a.csv''))) = Some scenario_reader \<and>
   scenario_reader (AStr ''a.csv'') False ''y'' = Inr scenario_data \<and>
   fst (predict scenario_predictor scenario_data)
     = Inr [Value (PInt 0), Value (PInt 1), Value (PInt 1)] \<and>
   getattr (scenario_args [''a.csv'']) ''infile'' = Inl AttributeError \<and>
   main scenario_env (scenario_args [''a.csv''])
     = (Some TypeError, \<lparr>stdout = [], logged = []\<rparr>)"
  by (simp add: scenario_main scenario_extensions scenario_lookup scenario_prediction
      scenario_reader_def getattr_def)

text \<open>
  C9.  The extension of \<open>a.CSV\<close> lowercases to \<open>.csv\<close>, which has a reader, but the run
  ends with TypeError before the lookup: the file is not dispatched to that reader.
\<close>

theorem main_uppercase_suffix_raises:
  "lower (snd (splitext ''a.CSV'')) = ''.csv'' \<and>
   EXT_TO_READER scenario_env ''.csv'' = Some scenario_reader \<and>
   main scenario_env (scenario_args [''a.CSV''])
     = (Some TypeError, \<lparr>stdout = [], logged = []\<rparr>)"
  by (simp add: scenario_main scenario_extensions scenario_lookup)

end
